theory Spec2Isabelle
  imports Complex_Main
begin

section \<open>Particles of mollab: data model\<close>

text \<open>
  The development embeds \<^verbatim>\<open>mollab/core/atom.py\<close> and
  \<^verbatim>\<open>mollab/plugins/input/input_base.py\<close>.  Python objects live in a store
  indexed by their identity, so that two names for one object share their
  mutations.  Coordinates are Python floats; they are modelled by real numbers,
  so every statement about lengths and distances is a statement of exact
  arithmetic.
\<close>

type_synonym addr = nat

type_synonym vec3 = "real \<times> real \<times> real"

text \<open>
  Attribute values.  Python compares numbers by value (\<^verbatim>\<open>1 == 1.0\<close>), so
  integers and floats share one constructor.  \<open>PyBuiltinType\<close> is the builtin
  class \<^verbatim>\<open>type\<close>; \<open>PyMethod a name\<close> is the method \<open>name\<close> bound to the object
  \<open>a\<close>; \<open>PyList\<close> is a list of atoms and \<open>PyArray\<close> a numpy array of length
  three.  Two values are equal here exactly when Python's \<^verbatim>\<open>==\<close> holds of them.
\<close>

datatype pyval =
    PyNone
  | PyNum real
  | PyStr string
  | PyBuiltinType
  | PyMethod addr string
  | PyList "addr list"
  | PyArray vec3

datatype error =
    TypeError string
  | ValueError
  | SyntaxError
  | AttributeError string

text \<open>
  An atom: the fields \<open>label\<close>, \<open>parent\<close>, \<open>itemType\<close> and the position come
  from the base class \<^verbatim>\<open>Item\<close>; \<open>style\<close>, \<open>neighbors\<close> and \<open>replicas\<close> are
  \<^verbatim>\<open>_style\<close>, \<^verbatim>\<open>_neighbors\<close> and \<^verbatim>\<open>_duplicate\<close> of \<^verbatim>\<open>Atom.__init__\<close>; \<open>attrs\<close>
  holds the instance attributes added by the variants (\<^verbatim>\<open>atomId\<close>, \<^verbatim>\<open>molId\<close>,
  \<^verbatim>\<open>type\<close>, \<^verbatim>\<open>_id\<close>, ...).
\<close>

record atom =
  itemType :: string
  label :: pyval
  parent :: pyval
  position :: vec3
  style :: string
  neighbors :: "addr list"
  replicas :: "addr list"
  attrs :: "string \<rightharpoonup> pyval"

type_synonym heap = "addr \<Rightarrow> atom"

subsection \<open>Arithmetic of numpy arrays of length three\<close>

definition vadd :: "vec3 \<Rightarrow> vec3 \<Rightarrow> vec3" where
  "vadd u v = (case u of (a, b, c) \<Rightarrow> case v of (x, y, z) \<Rightarrow> (a + x, b + y, c + z))"

definition vsub :: "vec3 \<Rightarrow> vec3 \<Rightarrow> vec3" where
  "vsub u v = (case u of (a, b, c) \<Rightarrow> case v of (x, y, z) \<Rightarrow> (a - x, b - y, c - z))"

definition vneg :: "vec3 \<Rightarrow> vec3" where
  "vneg u = (case u of (a, b, c) \<Rightarrow> (- a, - b, - c))"

definition vscale :: "vec3 \<Rightarrow> real \<Rightarrow> vec3" where
  "vscale u k = (case u of (a, b, c) \<Rightarrow> (a * k, b * k, c * k))"

definition vdiv :: "vec3 \<Rightarrow> real \<Rightarrow> vec3" where
  "vdiv u k = (case u of (a, b, c) \<Rightarrow> (a / k, b / k, c / k))"

text \<open>\<^verbatim>\<open>np.linalg.norm\<close> of a vector: the Euclidean length.\<close>

definition linalg_norm :: "vec3 \<Rightarrow> real" where
  "linalg_norm u = (case u of (a, b, c) \<Rightarrow> sqrt (a * a + b * b + c * c))"

section \<open>Construction\<close>

text \<open>
  Modelled from the spec: \<^verbatim>\<open>Item.__init__(itemType)\<close> of
  \<^verbatim>\<open>mollab/core/item.py\<close>, which is not among the sources.  The spec's Entity
  holds a label, a parent reference and a position and has no behaviour beyond
  storage.  The spec does not say which label and parent a new entity has:
  here it has none, and no property below depends on that.
\<close>

definition Item_init :: "string \<Rightarrow> atom" where
  "Item_init tag =
     \<lparr>itemType = tag, label = PyNone, parent = PyNone, position = (0, 0, 0),
      style = [], neighbors = [], replicas = [], attrs = Map.empty\<rparr>"

text \<open>\<^verbatim>\<open>Atom.__init__(self, style)\<close>; \<open>self\<close> is the identity of the new object.\<close>

definition Atom_init :: "addr \<Rightarrow> string \<Rightarrow> atom" where
  "Atom_init self sty =
     (Item_init ''Atom'')\<lparr>style := sty, replicas := [self], neighbors := []\<rparr>"

text \<open>
  \<^verbatim>\<open>fullAtom.__init__\<close> stores its parameter \<^verbatim>\<open>type\<close>.  In
  \<^verbatim>\<open>molecularAtom.__init__\<close> the parameter is called \<^verbatim>\<open>typeId\<close>, so the name
  \<^verbatim>\<open>type\<close> on the right of \<^verbatim>\<open>self.type = type\<close> is the builtin class.
\<close>

definition fullAtom ::
  "addr \<Rightarrow> pyval \<Rightarrow> pyval \<Rightarrow> pyval \<Rightarrow> real \<Rightarrow> real \<Rightarrow> real \<Rightarrow> real \<Rightarrow> atom" where
  "fullAtom self atomId molId type q x y z =
     (let a = Atom_init self ''full''
      in a\<lparr>position := (x, y, z),
            attrs := (attrs a)(''atomId'' \<mapsto> atomId, ''molId'' \<mapsto> molId,
                        ''type'' \<mapsto> type, ''q'' \<mapsto> PyNum q,
                        ''_id'' \<mapsto> atomId, ''_type'' \<mapsto> type)\<rparr>)"

definition molecularAtom ::
  "addr \<Rightarrow> pyval \<Rightarrow> pyval \<Rightarrow> pyval \<Rightarrow> real \<Rightarrow> real \<Rightarrow> real \<Rightarrow> atom" where
  "molecularAtom self atomId molId typeId x y z =
     (let a = Atom_init self ''molecular''
      in a\<lparr>position := (x, y, z),
            attrs := (attrs a)(''atomId'' \<mapsto> atomId, ''molId'' \<mapsto> molId,
                        ''type'' \<mapsto> PyBuiltinType, ''_id'' \<mapsto> atomId)\<rparr>)"

text \<open>
  A store for the scenarios: object \<open>0\<close> at \<open>p\<close>, every other object at \<open>q\<close>.
\<close>

definition atoms_at :: "vec3 \<Rightarrow> vec3 \<Rightarrow> heap" where
  "atoms_at p q =
     (\<lambda>i. if i = 0
          then molecularAtom 0 (PyNum 0) (PyNum 1) (PyNum 1) (fst p) (fst (snd p)) (snd (snd p))
          else molecularAtom i (PyNum (real i)) (PyNum 1) (PyNum 1)
                 (fst q) (fst (snd q)) (snd (snd q)))"

section \<open>Movement\<close>

text \<open>
  Modelled from the spec: \<^verbatim>\<open>Item._move(position, x, y, z)\<close> of
  \<^verbatim>\<open>mollab/core/item.py\<close>, which is not among the sources.  The spec describes
  it as \<^verbatim>\<open>translate(position, dx, dy, dz)\<close>: vector addition.
\<close>

definition Item_move :: "vec3 \<Rightarrow> real \<Rightarrow> real \<Rightarrow> real \<Rightarrow> vec3" where
  "Item_move pos x y z = vadd pos (x, y, z)"

text \<open>
  \<^verbatim>\<open>move(self, x, y, z)\<close>: replaces the position of \<open>self\<close> in the store.
  The call \<^verbatim>\<open>self.move(*v)\<close> of the source unpacks an array of length three;
  \<open>move_by\<close> is that call.
\<close>

definition move :: "heap \<Rightarrow> addr \<Rightarrow> real \<Rightarrow> real \<Rightarrow> real \<Rightarrow> heap" where
  "move h self x y z =
     (let newpos = Item_move (position (h self)) x y z
      in h(self := (h self)\<lparr>position := newpos\<rparr>))"

definition move_by :: "heap \<Rightarrow> addr \<Rightarrow> vec3 \<Rightarrow> heap" where
  "move_by h self v = (case v of (x, y, z) \<Rightarrow> move h self x y z)"

definition move_to :: "heap \<Rightarrow> addr \<Rightarrow> real \<Rightarrow> real \<Rightarrow> real \<Rightarrow> heap" where
  "move_to h self x y z = h(self := (h self)\<lparr>position := (x, y, z)\<rparr>)"

section \<open>Pairwise operations\<close>

definition distance_to :: "heap \<Rightarrow> addr \<Rightarrow> addr \<Rightarrow> real" where
  "distance_to h self targetItem =
     (let coords1 = position (h self);
          coords2 = position (h targetItem)
      in linalg_norm (vsub coords2 coords1))"

text \<open>
  \<^verbatim>\<open>seperate_with(self, targetItem, type, value)\<close>.  The result is the store
  after the call together with either the error raised or the returned
  object.  The two mode tests are separate \<^verbatim>\<open>if\<close> statements, and the second
  one compares with the literals \<^verbatim>\<open>'abusolute'\<close> and \<^verbatim>\<open>'abs'\<close>, as the source does.
\<close>

definition seperate_with ::
  "heap \<Rightarrow> addr \<Rightarrow> addr \<Rightarrow> string \<Rightarrow> real \<Rightarrow> heap \<times> (error + addr)" where
  "seperate_with h self targetItem type value =
     (if position (h self) = position (h targetItem) then (h, Inl ValueError)
      else
        let oriVec = vsub (position (h targetItem)) (position (h self));
            distance = linalg_norm oriVec;
            uniVec = vdiv oriVec distance;
            h1 = (if type = ''relative'' \<or> type = ''rel'' then
                    let distance' = distance * (value - 1) / 2;
                        ha = move_by h self (vscale (vneg uniVec) distance')
                    in move_by ha targetItem (vscale uniVec distance')
                  else h);
            h2 = (if type = ''abusolute'' \<or> type = ''abs'' then
                    let ha = move_by h1 self (vscale (vneg uniVec) value)
                    in move_by ha targetItem (vscale uniVec value)
                  else h1)
        in (h2, Inr self))"

section \<open>Bonding\<close>

text \<open>
  An argument of \<^verbatim>\<open>add_neighbors\<close> is either an instance of \<^verbatim>\<open>Atom\<close> (of any
  variant) or some other Python value, of which only the type matters: the
  constructor \<open>Other\<close> carries what \<^verbatim>\<open>type(atom)\<close> prints as.  The error
  \<open>TypeError t\<close> stands for the exception whose message is built from
  \<^verbatim>\<open>'... %s' % (type(atom))\<close>; \<open>t\<close> is the text substituted for \<^verbatim>\<open>%s\<close>.
\<close>

datatype pyobj = AtomRef addr | Other string

text \<open>
  Modelled from the spec: \<^verbatim>\<open>Item.__contains__\<close> of \<^verbatim>\<open>mollab/core/item.py\<close>,
  which is not among the sources and decides \<^verbatim>\<open>atom not in self\<close>.  The spec
  reads the test as membership in the bonding collection, by identity.
\<close>

definition Item_contains :: "heap \<Rightarrow> addr \<Rightarrow> addr \<Rightarrow> bool" where
  "Item_contains h self atom \<longleftrightarrow> atom \<in> set (neighbors (h self))"

text \<open>\<^verbatim>\<open>a._neighbors.append(b)\<close>\<close>

definition neighbors_append :: "heap \<Rightarrow> addr \<Rightarrow> addr \<Rightarrow> heap" where
  "neighbors_append h a b = h(a := (h a)\<lparr>neighbors := neighbors (h a) @ [b]\<rparr>)"

fun add_neighbors :: "heap \<Rightarrow> addr \<Rightarrow> pyobj list \<Rightarrow> heap \<times> error option" where
  "add_neighbors h self [] = (h, None)"
| "add_neighbors h self (AtomRef atom # atoms) =
     (let h1 = (if \<not> Item_contains h self atom then neighbors_append h self atom else h);
          h2 = (if \<not> Item_contains h1 atom self then neighbors_append h1 atom self else h1)
      in add_neighbors h2 self atoms)"
| "add_neighbors h self (Other t # atoms) = (h, Some (TypeError t))"

text \<open>\<^verbatim>\<open>isinstance(atom, Atom)\<close>\<close>

fun isinstance_Atom :: "pyobj \<Rightarrow> bool" where
  "isinstance_Atom (AtomRef a) = True"
| "isinstance_Atom (Other t) = False"

section \<open>Rotation\<close>

text \<open>
  \<^verbatim>\<open>rotate(self, theta, x, y, z, x0, y0, z0)\<close>.  The rotation of a position
  about an axis through the origin, \<^verbatim>\<open>Item._rotate(position, theta, x, y, z)\<close>,
  belongs to \<^verbatim>\<open>mollab/core/item.py\<close>, which is not among the sources; it is
  the parameter \<open>Item_rotate\<close>.  The method \<^verbatim>\<open>rotate\<close> is \<open>rotate_atom\<close> here.
\<close>

definition rotate_atom ::
  "(vec3 \<Rightarrow> real \<Rightarrow> real \<Rightarrow> real \<Rightarrow> real \<Rightarrow> vec3) \<Rightarrow>
     heap \<Rightarrow> addr \<Rightarrow> real \<Rightarrow> real \<Rightarrow> real \<Rightarrow> real \<Rightarrow> real \<Rightarrow> real \<Rightarrow> real \<Rightarrow> heap" where
  "rotate_atom Item_rotate h self theta x y z x0 y0 z0 =
     (let disVec = (x0, y0, z0);
          h1 = move_by h self (vneg disVec);
          h2 = h1(self := (h1 self)\<lparr>position := Item_rotate (position (h1 self)) theta x y z\<rparr>)
      in move_by h2 self disVec)"

text \<open>
  \<^verbatim>\<open>rotate_orth(self, theta, x, y, z, xAxis, yAxis, zAxis)\<close>.  The selectors are
  compared with the tuples \<^verbatim>\<open>(1, 0, 0)\<close>, \<^verbatim>\<open>(0, 1, 0)\<close> and \<^verbatim>\<open>(0, 0, 1)\<close> by
  Python's numeric equality, under which \<^verbatim>\<open>True\<close>, \<^verbatim>\<open>1\<close> and \<^verbatim>\<open>1.0\<close> are one
  value: they are numbers here.
\<close>

definition rotate_orth ::
  "(vec3 \<Rightarrow> real \<Rightarrow> real \<Rightarrow> real \<Rightarrow> real \<Rightarrow> vec3) \<Rightarrow>
     heap \<Rightarrow> addr \<Rightarrow> real \<Rightarrow> real \<Rightarrow> real \<Rightarrow> real \<Rightarrow> real \<Rightarrow> real \<Rightarrow> real \<Rightarrow>
     heap \<times> (error + addr)" where
  "rotate_orth Item_rotate h self theta x y z xAxis yAxis zAxis =
     (if (xAxis, yAxis, zAxis) = (1, 0, 0) \<or>
         (xAxis, yAxis, zAxis) = (0, 1, 0) \<or>
         (xAxis, yAxis, zAxis) = (0, 0, 1)
      then (rotate_atom Item_rotate h self theta xAxis yAxis zAxis x y z, Inr self)
      else (h, Inl SyntaxError))"

text \<open>
  The spec's canonical selectors: exactly one axis is selected.  A rotation to
  try \<open>rotate_orth\<close> on: the quarter turn about the third axis, whatever the
  angle and axis asked for.
\<close>

definition one_hot :: "real \<times> real \<times> real \<Rightarrow> bool" where
  "one_hot s \<longleftrightarrow> s = (1, 0, 0) \<or> s = (0, 1, 0) \<or> s = (0, 0, 1)"

definition quarter_turn_z :: "vec3 \<Rightarrow> real \<Rightarrow> real \<Rightarrow> real \<Rightarrow> real \<Rightarrow> vec3" where
  "quarter_turn_z p theta x y z = (case p of (a, b, c) \<Rightarrow> (- b, a, c))"

section \<open>Random displacement\<close>






section \<open>Replication\<close>

text \<open>
  Creating an object needs an identity no live object has: the store is paired
  with the next unused identity.

  Modelled from the spec: \<^verbatim>\<open>Item.get_replica(label)\<close> of
  \<^verbatim>\<open>mollab/core/item.py\<close>, which is not among the sources.  The spec asks for a
  structural copy of the source particle, with the same fields and a new
  identity; the argument is the label of the copy.
\<close>

definition get_replica :: "heap \<times> addr \<Rightarrow> addr \<Rightarrow> pyval \<Rightarrow> (heap \<times> addr) \<times> addr" where
  "get_replica s j newLabel =
     (case s of (h, nxt) \<Rightarrow> ((h(nxt := (h j)\<lparr>label := newLabel\<rparr>), Suc nxt), nxt))"

text \<open>
  The inner loop \<^verbatim>\<open>for i in range(1, n + 1)\<close> of \<^verbatim>\<open>duplicate\<close>, over the list of
  the values of \<open>i\<close> still to come, and the outer loop \<^verbatim>\<open>for j in self._duplicate\<close>.
  The number \<open>n\<close> of copies is a natural number.
\<close>

fun duplicate_inner ::
  "heap \<times> addr \<Rightarrow> addr \<Rightarrow> real \<Rightarrow> real \<Rightarrow> real \<Rightarrow> nat list \<Rightarrow> addr list \<Rightarrow>
     (heap \<times> addr) \<times> addr list" where
  "duplicate_inner s j x y z [] temp = (s, temp)"
| "duplicate_inner s j x y z (i # is) temp =
     (case get_replica s j (label (fst s j)) of
        ((h1, nxt1), atom) \<Rightarrow>
          let h2 = move h1 atom (real i * x) (real i * y) (real i * z)
          in duplicate_inner (h2, nxt1) j x y z is (temp @ [atom]))"

fun duplicate_outer ::
  "heap \<times> addr \<Rightarrow> nat \<Rightarrow> real \<Rightarrow> real \<Rightarrow> real \<Rightarrow> addr list \<Rightarrow> addr list \<Rightarrow>
     (heap \<times> addr) \<times> addr list" where
  "duplicate_outer s n x y z [] temp = (s, temp)"
| "duplicate_outer s n x y z (j # js) temp =
     (case duplicate_inner s j x y z [1..<Suc n] temp of
        (s1, temp1) \<Rightarrow> duplicate_outer s1 n x y z js temp1)"

definition duplicate ::
  "heap \<times> addr \<Rightarrow> addr \<Rightarrow> nat \<Rightarrow> real \<Rightarrow> real \<Rightarrow> real \<Rightarrow> (heap \<times> addr) \<times> addr" where
  "duplicate s self n x y z =
     (case duplicate_outer s n x y z (replicas (fst s self)) [] of
        ((h1, nxt1), temp) \<Rightarrow>
          ((h1(self := (h1 self)\<lparr>replicas := replicas (h1 self) @ temp\<rparr>), nxt1), self))"

text \<open>
  What the spec asks of the \<open>i\<close>-th copy of a source particle: the fields of
  the source, at the position of the source plus \<open>i\<close> times \<open>(x, y, z)\<close>.
\<close>

definition shifted :: "atom \<Rightarrow> nat \<Rightarrow> real \<Rightarrow> real \<Rightarrow> real \<Rightarrow> atom" where
  "shifted a i x y z = a\<lparr>position := vadd (position a) (real i * x, real i * y, real i * z)\<rparr>"

section \<open>Export\<close>

text \<open>Reading an instance attribute that was never assigned raises.\<close>

definition attr_get :: "atom \<Rightarrow> string \<Rightarrow> error + pyval" where
  "attr_get a name =
     (case attrs a name of Some v \<Rightarrow> Inr v | None \<Rightarrow> Inl (AttributeError name))"

text \<open>
  \<^verbatim>\<open>toDict(self)\<close>: the entries are evaluated in the order of the dictionary
  display; \<^verbatim>\<open>self.id\<close> is the property reading \<^verbatim>\<open>self._id\<close>.
\<close>

definition toDict :: "atom \<Rightarrow> error + (string \<rightharpoonup> pyval)" where
  "toDict a =
     (case attr_get a ''_id'' of
        Inl e \<Rightarrow> Inl e
      | Inr i \<Rightarrow>
          (case attr_get a ''type'' of
             Inl e \<Rightarrow> Inl e
           | Inr t \<Rightarrow>
               Inr [''item'' \<mapsto> PyStr (itemType a), ''id'' \<mapsto> i, ''label'' \<mapsto> label a,
                    ''type'' \<mapsto> t, ''parent'' \<mapsto> parent a,
                    ''x'' \<mapsto> PyNum (fst (position a)),
                    ''y'' \<mapsto> PyNum (fst (snd (position a))),
                    ''z'' \<mapsto> PyNum (snd (snd (position a)))]))"

section \<open>Grouping\<close>

text \<open>
  Lists and arrays have no hash: a dictionary refuses them as keys with a
  \<open>TypeError\<close> that names their type.
\<close>

fun hashable :: "pyval \<Rightarrow> bool" where
  "hashable (PyList xs) = False"
| "hashable (PyArray v) = False"
| "hashable v = True"

fun unhashable_type :: "pyval \<Rightarrow> string" where
  "unhashable_type (PyArray v) = ''numpy.ndarray''"
| "unhashable_type v = ''list''"

text \<open>The methods that the class \<^verbatim>\<open>Atom\<close> defines.\<close>

definition Atom_methods :: "string list" where
  "Atom_methods =
     [''__init__'', ''__str__'', ''__repr__'', ''add_neighbors'', ''move'', ''move_to'',
      ''randmove'', ''rotate'', ''rotate_orth'', ''seperate_with'', ''distance_to'',
      ''duplicate'', ''toDict'']"

text \<open>
  \<^verbatim>\<open>getattr(atom, name, default)\<close> on the object \<open>self\<close> whose state is \<open>a\<close>,
  in the order of Python's lookup.
  \<^item> The properties of \<^verbatim>\<open>Atom\<close>: \<^verbatim>\<open>uuid\<close> is \<^verbatim>\<open>id(self)\<close>, the identity of the
    object; \<^verbatim>\<open>id\<close> reads \<^verbatim>\<open>self._id\<close> and \<^verbatim>\<open>mass\<close> reads \<^verbatim>\<open>self._mass\<close>, and
    when that attribute was never assigned the \<^verbatim>\<open>AttributeError\<close> raised inside
    the property makes \<^verbatim>\<open>getattr\<close> return the default; \<^verbatim>\<open>style\<close> reads
    \<^verbatim>\<open>self._style\<close>; \<^verbatim>\<open>neighbors\<close> is the list \<^verbatim>\<open>self._neighbors\<close> itself.
  \<^item> What the base class \<^verbatim>\<open>Item\<close> holds according to the spec and to the uses
    in \<^verbatim>\<open>atom.py\<close>: parent, label, item tag, the position as an array, and its
    three coordinates.
  \<^item> The attributes of the instance: \<^verbatim>\<open>_style\<close>, \<^verbatim>\<open>_neighbors\<close>, \<^verbatim>\<open>_duplicate\<close>,
    the coordinates, and whatever else was assigned (\<open>attrs\<close>).
  \<^item> The methods of \<^verbatim>\<open>Atom\<close>, bound to the object.
  \<^item> Whatever else the lookup finds on the classes: what \<^verbatim>\<open>Item\<close> and
    \<^verbatim>\<open>object\<close> provide under other names, and the special attributes every
    class has (\<^verbatim>\<open>__class__\<close>, \<^verbatim>\<open>__doc__\<close>, ...).  \<^verbatim>\<open>Item\<close> is not among the
    sources: this is the parameter \<open>class_attr\<close>.
\<close>

definition getattr ::
  "(addr \<Rightarrow> string \<Rightarrow> pyval option) \<Rightarrow> addr \<Rightarrow> atom \<Rightarrow> string \<Rightarrow> pyval \<Rightarrow> pyval" where
  "getattr class_attr self a name dflt =
     (if name = ''uuid'' then PyNum (real self)
      else if name = ''id'' then (case attrs a ''_id'' of Some v \<Rightarrow> v | None \<Rightarrow> dflt)
      else if name = ''style'' then PyStr (style a)
      else if name = ''mass'' then (case attrs a ''_mass'' of Some v \<Rightarrow> v | None \<Rightarrow> dflt)
      else if name = ''neighbors'' then PyList (neighbors a)
      else if name = ''parent'' then parent a
      else if name = ''label'' then label a
      else if name = ''itemType'' then PyStr (itemType a)
      else if name = ''position'' then PyArray (position a)
      else if name = ''x'' \<or> name = ''_x'' then PyNum (fst (position a))
      else if name = ''y'' \<or> name = ''_y'' then PyNum (fst (snd (position a)))
      else if name = ''z'' \<or> name = ''_z'' then PyNum (snd (snd (position a)))
      else if name = ''_style'' then PyStr (style a)
      else if name = ''_neighbors'' then PyList (neighbors a)
      else if name = ''_duplicate'' then PyList (replicas a)
      else
        (case attrs a name of
           Some v \<Rightarrow> v
         | None \<Rightarrow>
             if name \<in> set Atom_methods then PyMethod self name
             else (case class_attr self name of Some v \<Rightarrow> v | None \<Rightarrow> dflt)))"

text \<open>
  Modelled from the spec: the aggregate \<^verbatim>\<open>Molecule\<close> of
  \<^verbatim>\<open>mollab/core/molecule.py\<close>, which is not among the sources.  The spec
  requires construction from a group key, a settable parent and
  \<^verbatim>\<open>add_items(*particles)\<close>.
\<close>

record molecule =
  mol_name :: pyval
  mol_parent :: pyval
  mol_items :: "addr list"

definition Molecule :: "pyval \<Rightarrow> molecule" where
  "Molecule name = \<lparr>mol_name = name, mol_parent = PyNone, mol_items = []\<rparr>"

definition add_items :: "molecule \<Rightarrow> addr list \<Rightarrow> molecule" where
  "add_items m items = m\<lparr>mol_items := mol_items m @ items\<rparr>"

text \<open>
  \<^verbatim>\<open>grouped_atoms[ref].append(atom)\<close> on a \<^verbatim>\<open>defaultdict(list)\<close>.  A Python
  dictionary keeps its keys in the order of their first insertion: it is a
  list of pairs with distinct keys.
\<close>

fun dict_append :: "('k \<times> 'v list) list \<Rightarrow> 'k \<Rightarrow> 'v \<Rightarrow> ('k \<times> 'v list) list" where
  "dict_append [] k v = [(k, [v])]"
| "dict_append ((k', vs) # d) k v =
     (if k' = k then (k', vs @ [v]) # d else (k', vs) # dict_append d k v)"

text \<open>
  The first loop of \<^verbatim>\<open>group_by\<close>.  The parent is assigned before the
  dictionary is asked for the key, so an unhashable key leaves its mark on the
  atom before the \<open>TypeError\<close>.
\<close>

fun group_atoms ::
  "(addr \<Rightarrow> string \<Rightarrow> pyval option) \<Rightarrow> string \<Rightarrow> heap \<Rightarrow> (pyval \<times> addr list) list \<Rightarrow>
     addr list \<Rightarrow> heap \<times> (error + (pyval \<times> addr list) list)" where
  "group_atoms class_attr reference h grouped_atoms [] = (h, Inr grouped_atoms)"
| "group_atoms class_attr reference h grouped_atoms (atom # atoms) =
     (let ref = getattr class_attr atom (h atom) reference (PyStr ''UNDEFINED'');
          h1 = h(atom := (h atom)\<lparr>parent := ref\<rparr>)
      in if hashable ref
         then group_atoms class_attr reference h1 (dict_append grouped_atoms ref atom) atoms
         else (h1, Inl (TypeError (unhashable_type ref))))"

text \<open>The body of the second loop, and \<^verbatim>\<open>group_by\<close> itself.\<close>

definition make_molecule :: "string \<Rightarrow> pyval \<times> addr list \<Rightarrow> molecule" where
  "make_molecule filename item =
     (case item of (ref, gatom) \<Rightarrow>
        let mol = Molecule ref;
            mol1 = mol\<lparr>mol_parent := PyStr filename\<rparr>
        in add_items mol1 gatom)"

definition group_by ::
  "(addr \<Rightarrow> string \<Rightarrow> pyval option) \<Rightarrow> heap \<Rightarrow> string \<Rightarrow> addr list \<Rightarrow> string \<Rightarrow>
     heap \<times> (error + molecule list)" where
  "group_by class_attr h filename atoms reference =
     (case group_atoms class_attr reference h [] atoms of
        (h1, Inl e) \<Rightarrow> (h1, Inl e)
      | (h1, Inr grouped_atoms) \<Rightarrow> (h1, Inr (map (make_molecule filename) grouped_atoms)))"

text \<open>
  The key of an atom, as the first loop computes it, and the value the
  dictionary holds under a key (no list when the key is absent).
\<close>

definition group_key ::
  "(addr \<Rightarrow> string \<Rightarrow> pyval option) \<Rightarrow> heap \<Rightarrow> string \<Rightarrow> addr \<Rightarrow> pyval" where
  "group_key class_attr h reference a =
     getattr class_attr a (h a) reference (PyStr ''UNDEFINED'')"

definition dict_get :: "('k \<times> 'v list) list \<Rightarrow> 'k \<Rightarrow> 'v list" where
  "dict_get d k = (case map_of d k of None \<Rightarrow> [] | Some vs \<Rightarrow> vs)"

text \<open>
  The spec's order of the aggregates: the distinct keys, each at the place of
  its first occurrence.
\<close>

primrec first_occurrences :: "'a list \<Rightarrow> 'a list" where
  "first_occurrences [] = []"
| "first_occurrences (x # xs) = x # filter (\<lambda>y. y \<noteq> x) (first_occurrences xs)"

text \<open>
  A store for the grouping scenario: the attribute \<^verbatim>\<open>ref\<close> is \<^verbatim>\<open>'m2'\<close> on object
  \<open>2\<close>, missing on object \<open>3\<close>, and \<^verbatim>\<open>'m1'\<close> on every other object.
\<close>

text \<open>A class that provides nothing beyond what \<open>getattr\<close> already knows.\<close>

definition no_class_attr :: "addr \<Rightarrow> string \<Rightarrow> pyval option" where
  "no_class_attr a name = None"

definition grouping_store :: heap where
  "grouping_store =
     (\<lambda>i. (Atom_init i ''full'')
            \<lparr>attrs := (if i = 2 then [''ref'' \<mapsto> PyStr ''m2'']
                       else if i = 3 then Map.empty
                       else [''ref'' \<mapsto> PyStr ''m1''])\<rparr>)"

section \<open>Properties of the pairwise operations\<close>


lemma linalg_norm_eq_0: "linalg_norm u = 0 \<longleftrightarrow> u = (0, 0, 0)"
proof (cases u)
  case (fields a b c)
  have "a * a + b * b + c * c = 0 \<longleftrightarrow> a = 0 \<and> b = 0 \<and> c = 0"
  proof -
    have "0 \<le> a * a" "0 \<le> b * b" "0 \<le> c * c" by simp_all
    then show ?thesis by (auto simp: add_nonneg_eq_0_iff)
  qed
  then show ?thesis
    by (simp add: fields linalg_norm_def)
qed

lemma vsub_eq_0: "vsub u v = (0, 0, 0) \<longleftrightarrow> u = v"
  by (cases u, cases v) (auto simp: vsub_def)

lemma linalg_norm_vscale: "linalg_norm (vscale u k) = \<bar>k\<bar> * linalg_norm u"
proof (cases u)
  case (fields a b c)
  have "a * k * (a * k) + b * k * (b * k) + c * k * (c * k)
          = (k * k) * (a * a + b * b + c * c)"
    by (simp add: algebra_simps)
  then show ?thesis
    by (simp add: fields linalg_norm_def vscale_def real_sqrt_mult)
qed

text \<open>
  C6.  When the two positions coincide, \<open>seperate_with\<close> raises \<open>ValueError\<close>
  (the spec's DegenerateGeometry condition) for every mode and every value, and
  the store it leaves is the store it was given: no position has changed.
\<close>

theorem seperate_with_coincident:
  "position (h self) = position (h targetItem) \<Longrightarrow>
     seperate_with h self targetItem type value = (h, Inl ValueError)"
  by (simp add: seperate_with_def)

text \<open>The scenario store gives each object the position it was built with.\<close>

lemma position_atoms_at:
  "position (atoms_at p q i) = (if i = 0 then p else q)"
  by (simp add: atoms_at_def molecularAtom_def Let_def)

theorem seperate_with_coincident_witness:
  "position (atoms_at (1, 2, 3) (1, 2, 3) 0) = position (atoms_at (1, 2, 3) (1, 2, 3) 1)
   \<and> seperate_with (atoms_at (1, 2, 3) (1, 2, 3)) 0 1 ''relative'' 2
       = (atoms_at (1, 2, 3) (1, 2, 3), Inl ValueError)"
  using seperate_with_coincident [of "atoms_at (1, 2, 3) (1, 2, 3)" 0 1 "''relative''" 2]
  by (simp add: position_atoms_at)

subsection \<open>Moving two distinct objects\<close>

lemma move_by_same: "position (move_by h a v a) = vadd (position (h a)) v"
  by (cases v) (simp add: move_by_def move_def Item_move_def)

lemma move_by_other: "b \<noteq> a \<Longrightarrow> move_by h a v b = h b"
  by (cases v) (simp add: move_by_def move_def)

lemma linalg_norm_axis: "linalg_norm (a, 0, 0) = \<bar>a\<bar>"
  by (simp add: linalg_norm_def)

lemma seperate_with_relative_heap:
  assumes "position (h self) \<noteq> position (h targetItem)"
  shows "seperate_with h self targetItem ''relative'' value =
     (let oriVec = vsub (position (h targetItem)) (position (h self));
          distance = linalg_norm oriVec;
          uniVec = vdiv oriVec distance;
          k = distance * (value - 1) / 2
      in (move_by (move_by h self (vscale (vneg uniVec) k)) targetItem (vscale uniVec k),
          Inr self))"
  using assms by (simp add: seperate_with_def Let_def)

lemma seperate_with_abs_heap:
  assumes "position (h self) \<noteq> position (h targetItem)"
  shows "seperate_with h self targetItem ''abs'' value =
     (let oriVec = vsub (position (h targetItem)) (position (h self));
          distance = linalg_norm oriVec;
          uniVec = vdiv oriVec distance
      in (move_by (move_by h self (vscale (vneg uniVec) value)) targetItem
            (vscale uniVec value),
          Inr self))"
  using assms by (simp add: seperate_with_def Let_def)

lemma vec_stretch:
  assumes "d \<noteq> 0"
  shows "vsub (vadd q (vscale (vdiv (vsub q p) d) (d * (v - 1) / 2)))
              (vadd p (vscale (vneg (vdiv (vsub q p) d)) (d * (v - 1) / 2)))
         = vscale (vsub q p) v"
  using assms
  by (cases p, cases q)
     (simp add: vsub_def vadd_def vscale_def vdiv_def vneg_def field_simps)

lemma seperate_with_relative_moves:
  assumes ne: "position (h self) \<noteq> position (h targetItem)"
  shows "fst (seperate_with h self targetItem ''relative'' value) =
     move_by (move_by h self
        (vscale (vneg (vdiv (vsub (position (h targetItem)) (position (h self)))
                        (distance_to h self targetItem)))
           (distance_to h self targetItem * (value - 1) / 2)))
       targetItem
       (vscale (vdiv (vsub (position (h targetItem)) (position (h self)))
                  (distance_to h self targetItem))
          (distance_to h self targetItem * (value - 1) / 2))"
  by (simp add: seperate_with_relative_heap [OF ne] Let_def distance_to_def)

lemma separation_after_relative:
  assumes ne: "position (h self) \<noteq> position (h targetItem)"
  shows "vsub (position (fst (seperate_with h self targetItem ''relative'' value) targetItem))
              (position (fst (seperate_with h self targetItem ''relative'' value) self))
          = vscale (vsub (position (h targetItem)) (position (h self))) value"
proof -
  from ne have neq: "self \<noteq> targetItem" by auto
  have d0: "distance_to h self targetItem \<noteq> 0"
    using ne by (auto simp: distance_to_def linalg_norm_eq_0 vsub_eq_0)
  show ?thesis
    unfolding seperate_with_relative_moves [OF ne]
    using neq by (simp add: move_by_same move_by_other vec_stretch [OF d0])
qed

lemma distance_after_relative:
  assumes ne: "position (h self) \<noteq> position (h targetItem)"
  shows "distance_to (fst (seperate_with h self targetItem ''relative'' value)) self targetItem
          = distance_to h self targetItem * \<bar>value\<bar>"
  using separation_after_relative [OF ne, of "value"]
  by (simp add: distance_to_def linalg_norm_vscale)

lemma distance_atoms_at_axis:
  "distance_to (atoms_at (0, 0, 0) (a, 0, 0)) 0 (Suc i) = \<bar>a\<bar>"
  by (simp add: distance_to_def position_atoms_at vsub_def linalg_norm_axis)

lemma seperate_with_abs_moves:
  assumes ne: "position (h self) \<noteq> position (h targetItem)"
  shows "fst (seperate_with h self targetItem ''abs'' value) =
     move_by (move_by h self
        (vscale (vneg (vdiv (vsub (position (h targetItem)) (position (h self)))
                        (distance_to h self targetItem))) value))
       targetItem
       (vscale (vdiv (vsub (position (h targetItem)) (position (h self)))
                  (distance_to h self targetItem)) value)"
  by (simp add: seperate_with_abs_heap [OF ne] Let_def distance_to_def)

text \<open>
  The mode \<^verbatim>\<open>'abs'\<close> does move both objects by \<open>value\<close> along the unit
  orientation vector, away from each other.
\<close>

lemma seperate_with_abs_positions:
  assumes ne: "position (h self) \<noteq> position (h targetItem)"
  shows "position (fst (seperate_with h self targetItem ''abs'' value) self)
           = vadd (position (h self))
               (vscale (vneg (vdiv (vsub (position (h targetItem)) (position (h self)))
                               (distance_to h self targetItem))) value)"
    and "position (fst (seperate_with h self targetItem ''abs'' value) targetItem)
           = vadd (position (h targetItem))
               (vscale (vdiv (vsub (position (h targetItem)) (position (h self)))
                          (distance_to h self targetItem)) value)"
proof -
  from ne have neq: "self \<noteq> targetItem" by auto
  show "position (fst (seperate_with h self targetItem ''abs'' value) self)
           = vadd (position (h self))
               (vscale (vneg (vdiv (vsub (position (h targetItem)) (position (h self)))
                               (distance_to h self targetItem))) value)"
    unfolding seperate_with_abs_moves [OF ne]
    using neq by (simp add: move_by_same move_by_other)
  show "position (fst (seperate_with h self targetItem ''abs'' value) targetItem)
           = vadd (position (h targetItem))
               (vscale (vdiv (vsub (position (h targetItem)) (position (h self)))
                          (distance_to h self targetItem)) value)"
    unfolding seperate_with_abs_moves [OF ne]
    using neq by (simp add: move_by_same move_by_other)
qed

lemma seperate_with_abs_scenario:
  "position (fst (seperate_with (atoms_at (0, 0, 0) (10, 0, 0)) 0 1 ''abs'' 2) 0) = (- 2, 0, 0)
   \<and> position (fst (seperate_with (atoms_at (0, 0, 0) (10, 0, 0)) 0 1 ''abs'' 2) 1) = (12, 0, 0)"
proof -
  have ne: "position (atoms_at (0, 0, 0) (10, 0, 0) 0)
              \<noteq> position (atoms_at (0, 0, 0) (10, 0, 0) 1)"
    by (simp add: position_atoms_at)
  show ?thesis
    using seperate_with_abs_positions [OF ne, of 2]
    by (simp add: distance_atoms_at_axis position_atoms_at vsub_def vadd_def vscale_def
        vdiv_def vneg_def)
qed

text \<open>
  C1.  With the mode written \<^verbatim>\<open>"absolute"\<close>, as the claim writes it, neither mode
  test of \<open>seperate_with\<close> holds: the second one compares with \<^verbatim>\<open>'abusolute'\<close>
  and \<^verbatim>\<open>'abs'\<close>.  In the scenario of the claim, with A at \<open>(0, 0, 0)\<close>, B at
  \<open>(10, 0, 0)\<close> and the value \<open>2\<close>, the call returns A and leaves the store as it
  was: A is not at \<open>(-2, 0, 0)\<close> and B is not at \<open>(12, 0, 0)\<close>.
\<close>

theorem seperate_with_absolute_scenario:
  "seperate_with (atoms_at (0, 0, 0) (10, 0, 0)) 0 1 ''absolute'' 2
     = (atoms_at (0, 0, 0) (10, 0, 0), Inr 0)
   \<and> position (fst (seperate_with (atoms_at (0, 0, 0) (10, 0, 0)) 0 1 ''absolute'' 2) 0)
       = (0, 0, 0)
   \<and> position (fst (seperate_with (atoms_at (0, 0, 0) (10, 0, 0)) 0 1 ''absolute'' 2) 1)
       = (10, 0, 0)"
  by (simp add: seperate_with_def Let_def position_atoms_at)

text \<open>
  C4, as amended.  For two objects at distinct positions, at distance \<open>d\<close>, with
  \<open>u\<close> the unit orientation vector from \<open>self\<close> to the target, the mode
  \<^verbatim>\<open>"relative"\<close> returns \<open>self\<close>, moves \<open>self\<close> by \<open>d * (value - 1) / 2\<close> along \<open>- u\<close>
  and the target by the same amount along \<open>u\<close>; the vector from \<open>self\<close> to the
  target becomes \<open>d * value\<close> times \<open>u\<close>, and the new distance is
  \<open>d * \<bar>value\<bar>\<close>, which is \<open>d * value\<close> when \<open>value\<close> is not negative.
\<close>

theorem seperate_with_relative:
  assumes ne: "position (h self) \<noteq> position (h targetItem)"
  shows "let d = distance_to h self targetItem;
             u = vdiv (vsub (position (h targetItem)) (position (h self))) d;
             res = seperate_with h self targetItem ''relative'' value;
             h' = fst res
         in snd res = Inr self
          \<and> position (h' self)
              = vadd (position (h self)) (vscale (vneg u) (d * (value - 1) / 2))
          \<and> position (h' targetItem)
              = vadd (position (h targetItem)) (vscale u (d * (value - 1) / 2))
          \<and> vsub (position (h' targetItem)) (position (h' self)) = vscale u (d * value)
          \<and> distance_to h' self targetItem = d * \<bar>value\<bar>"
proof -
  let ?o = "vsub (position (h targetItem)) (position (h self))"
  let ?d = "distance_to h self targetItem"
  let ?h' = "fst (seperate_with h self targetItem ''relative'' value)"
  from ne have neq: "self \<noteq> targetItem" by auto
  have d0: "?d \<noteq> 0"
    using ne by (auto simp: distance_to_def linalg_norm_eq_0 vsub_eq_0)
  have r: "snd (seperate_with h self targetItem ''relative'' value) = Inr self"
    by (simp add: seperate_with_relative_heap [OF ne] Let_def)
  have pa: "position (?h' self) = vadd (position (h self))
              (vscale (vneg (vdiv ?o ?d)) (?d * (value - 1) / 2))"
    unfolding seperate_with_relative_moves [OF ne]
    using neq by (simp add: move_by_same move_by_other)
  have pb: "position (?h' targetItem) = vadd (position (h targetItem))
              (vscale (vdiv ?o ?d) (?d * (value - 1) / 2))"
    unfolding seperate_with_relative_moves [OF ne]
    using neq by (simp add: move_by_same move_by_other)
  have u: "vscale (vdiv ?o ?d) (?d * value) = vscale ?o value"
    using d0 by (cases ?o) (simp add: vscale_def vdiv_def)
  have sep: "vsub (position (?h' targetItem)) (position (?h' self))
               = vscale (vdiv ?o ?d) (?d * value)"
    using separation_after_relative [OF ne, of "value"] u by simp
  show ?thesis
    unfolding Let_def
    using r pa pb sep distance_after_relative [OF ne, of "value"] by blast
qed

theorem seperate_with_relative_witness:
  "position (atoms_at (0, 0, 0) (10, 0, 0) 0) \<noteq> position (atoms_at (0, 0, 0) (10, 0, 0) 1)
   \<and> distance_to (atoms_at (0, 0, 0) (10, 0, 0)) 0 1 = 10
   \<and> distance_to (fst (seperate_with (atoms_at (0, 0, 0) (10, 0, 0)) 0 1 ''relative'' 2)) 0 1
       = 20"
proof -
  have ne: "position (atoms_at (0, 0, 0) (10, 0, 0) 0)
              \<noteq> position (atoms_at (0, 0, 0) (10, 0, 0) 1)"
    by (simp add: position_atoms_at)
  show ?thesis
    using seperate_with_relative [OF ne, of 2] ne
    by (simp add: Let_def distance_atoms_at_axis)
qed

text \<open>
  The claim as it was stated fails for a negative value: at distance \<open>10\<close> the
  value \<open>-1\<close> makes the two objects change places, and the distance after the
  call is \<open>10\<close>, not \<open>10 * (-1)\<close>.
\<close>

theorem seperate_with_relative_counterexample:
  "distance_to (atoms_at (0, 0, 0) (10, 0, 0)) 0 1 = 10 \<and>
   distance_to (fst (seperate_with (atoms_at (0, 0, 0) (10, 0, 0)) 0 1 ''relative'' (- 1))) 0 1
     = 10 \<and>
   distance_to (fst (seperate_with (atoms_at (0, 0, 0) (10, 0, 0)) 0 1 ''relative'' (- 1))) 0 1
     \<noteq> distance_to (atoms_at (0, 0, 0) (10, 0, 0)) 0 1 * (- 1)"
proof -
  have ne: "position (atoms_at (0, 0, 0) (10, 0, 0) 0)
              \<noteq> position (atoms_at (0, 0, 0) (10, 0, 0) 1)"
    by (simp add: position_atoms_at)
  show ?thesis
    using distance_after_relative [OF ne, of "- 1"]
    by (simp add: distance_atoms_at_axis)
qed

section \<open>Properties of bonding\<close>


lemma neighbors_append_same:
  "neighbors (neighbors_append h a b a) = neighbors (h a) @ [b]"
  by (simp add: neighbors_append_def)

lemma neighbors_append_other:
  "c \<noteq> a \<Longrightarrow> neighbors_append h a b c = h c"
  by (simp add: neighbors_append_def)

lemma add_neighbors_bonded:
  "B \<in> set (neighbors (fst (add_neighbors h A [AtomRef B]) A)) \<and>
   A \<in> set (neighbors (fst (add_neighbors h A [AtomRef B]) B))"
  by (cases "A = B")
     (auto simp: Item_contains_def Let_def neighbors_append_same neighbors_append_other)

lemma add_neighbors_again:
  assumes "B \<in> set (neighbors (h A))" and "A \<in> set (neighbors (h B))"
  shows "add_neighbors h A [AtomRef B] = (h, None)"
  using assms by (simp add: Item_contains_def)

text \<open>
  C2.  After \<^verbatim>\<open>A.add_neighbors(B)\<close> the call has raised nothing, \<open>B\<close> is among the
  neighbours of \<open>A\<close> and \<open>A\<close> among those of \<open>B\<close>; a second call leaves the whole
  store as the first one left it, so neither neighbour list changes its length.
  \<open>A\<close> and \<open>B\<close> may be one object.
\<close>

theorem add_neighbors_symmetric_idempotent:
  "let h1 = fst (add_neighbors h A [AtomRef B]);
       h2 = fst (add_neighbors h1 A [AtomRef B])
   in snd (add_neighbors h A [AtomRef B]) = None
    \<and> B \<in> set (neighbors (h1 A)) \<and> A \<in> set (neighbors (h1 B))
    \<and> snd (add_neighbors h1 A [AtomRef B]) = None
    \<and> h2 = h1
    \<and> length (neighbors (h2 A)) = length (neighbors (h1 A))
    \<and> length (neighbors (h2 B)) = length (neighbors (h1 B))"
proof -
  let ?h1 = "fst (add_neighbors h A [AtomRef B])"
  have b: "B \<in> set (neighbors (?h1 A))" "A \<in> set (neighbors (?h1 B))"
    using add_neighbors_bonded [of B h A] by simp_all
  have r: "snd (add_neighbors h A [AtomRef B]) = None"
    by (simp add: Let_def)
  have again: "add_neighbors ?h1 A [AtomRef B] = (?h1, None)"
    using b by (rule add_neighbors_again)
  show ?thesis
    unfolding Let_def using b r again by simp
qed

lemma add_neighbors_prefix:
  "list_all isinstance_Atom pre \<Longrightarrow>
     add_neighbors h self (pre @ Other t # rest)
       = (fst (add_neighbors h self pre), Some (TypeError t))"
proof (induction pre arbitrary: h)
  case Nil
  then show ?case by simp
next
  case (Cons a pre)
  then show ?case by (cases a) (simp_all add: Let_def)
qed

text \<open>
  C8.  If some argument of \<open>add_neighbors\<close> is not an atom, the call raises
  \<open>TypeError\<close> with the type of the first such argument.  The arguments before it
  have been bonded, the ones after it are never looked at: the store is the
  one the call on the preceding arguments alone leaves.
\<close>

theorem add_neighbors_type_error:
  assumes "\<not> list_all isinstance_Atom atoms"
  shows "\<exists>pre t rest. atoms = pre @ Other t # rest \<and> list_all isinstance_Atom pre
           \<and> add_neighbors h self atoms = (fst (add_neighbors h self pre), Some (TypeError t))"
proof -
  from assms have "\<exists>x\<in>set atoms. \<not> isinstance_Atom x"
    by (simp add: list_all_iff)
  then obtain pre x rest where
    dec: "atoms = pre @ x # rest" and x: "\<not> isinstance_Atom x"
    and pre: "\<forall>y\<in>set pre. \<not> \<not> isinstance_Atom y"
    using split_list_first_prop [of atoms "\<lambda>x. \<not> isinstance_Atom x"] by blast
  from x obtain t where t: "x = Other t" by (cases x) simp_all
  from pre have all: "list_all isinstance_Atom pre" by (simp add: list_all_iff)
  show ?thesis
    using dec t all add_neighbors_prefix [OF all, of h self t rest] by blast
qed

theorem add_neighbors_type_error_witness:
  "\<not> list_all isinstance_Atom [AtomRef 1, Other ''int'', AtomRef 2]
   \<and> (\<exists>pre t rest. [AtomRef 1, Other ''int'', AtomRef 2] = pre @ Other t # rest
         \<and> list_all isinstance_Atom pre
         \<and> add_neighbors (atoms_at (0, 0, 0) (10, 0, 0)) 0 [AtomRef 1, Other ''int'', AtomRef 2]
             = (fst (add_neighbors (atoms_at (0, 0, 0) (10, 0, 0)) 0 pre), Some (TypeError t)))
   \<and> snd (add_neighbors (atoms_at (0, 0, 0) (10, 0, 0)) 0 [AtomRef 1, Other ''int'', AtomRef 2])
       = Some (TypeError ''int'')"
proof -
  have n: "\<not> list_all isinstance_Atom [AtomRef 1, Other ''int'', AtomRef 2]" by simp
  have e: "snd (add_neighbors (atoms_at (0, 0, 0) (10, 0, 0)) 0 [AtomRef 1, Other ''int'', AtomRef 2])
       = Some (TypeError ''int'')"
    by (simp add: Let_def)
  show ?thesis
    using n e add_neighbors_type_error [OF n, of "atoms_at (0, 0, 0) (10, 0, 0)" 0]
    by blast
qed

section \<open>Properties of rotation about an axis of the frame\<close>

lemma rotate_position:
  "position (rotate_atom R h self theta x y z x0 y0 z0 self)
     = Item_move (R (Item_move (position (h self)) (- x0) (- y0) (- z0)) theta x y z) x0 y0 z0"
  by (simp add: rotate_atom_def Let_def move_by_def move_def vneg_def)

text \<open>
  C7.  A selector triple that is not one of \<open>(1, 0, 0)\<close>, \<open>(0, 1, 0)\<close>,
  \<open>(0, 0, 1)\<close> makes \<open>rotate_orth\<close> raise \<open>SyntaxError\<close> (the spec's
  InvalidAxisSelector condition) and leaves the store untouched.  For each of
  the three it returns \<open>self\<close> after the general rotation about that axis
  through the pivot \<open>(x, y, z)\<close>: the position is moved by minus the pivot,
  rotated, and moved back.
\<close>

theorem rotate_orth_selector:
  "(\<not> one_hot (xAxis, yAxis, zAxis) \<longrightarrow>
      rotate_orth R h self theta x y z xAxis yAxis zAxis = (h, Inl SyntaxError))
   \<and> (one_hot (xAxis, yAxis, zAxis) \<longrightarrow>
      rotate_orth R h self theta x y z xAxis yAxis zAxis
        = (rotate_atom R h self theta xAxis yAxis zAxis x y z, Inr self)
      \<and> position (fst (rotate_orth R h self theta x y z xAxis yAxis zAxis) self)
          = Item_move (R (Item_move (position (h self)) (- x) (- y) (- z))
                         theta xAxis yAxis zAxis) x y z)"
  by (simp add: rotate_orth_def one_hot_def rotate_position)

theorem rotate_orth_selector_witness:
  "\<not> one_hot (1, 1, 0) \<and>
   rotate_orth quarter_turn_z (atoms_at (2, 1, 0) (0, 0, 0)) 0 1 1 1 0 1 1 0
     = (atoms_at (2, 1, 0) (0, 0, 0), Inl SyntaxError) \<and>
   one_hot (0, 0, 1) \<and>
   snd (rotate_orth quarter_turn_z (atoms_at (2, 1, 0) (0, 0, 0)) 0 1 1 1 0 0 0 1) = Inr 0 \<and>
   position (fst (rotate_orth quarter_turn_z (atoms_at (2, 1, 0) (0, 0, 0)) 0 1 1 1 0 0 0 1) 0)
     = (1, 2, 0)"
proof -
  have a: "\<not> one_hot (1, 1, 0)" and b: "one_hot (0, 0, 1)"
    by (simp_all add: one_hot_def)
  have e: "rotate_orth quarter_turn_z (atoms_at (2, 1, 0) (0, 0, 0)) 0 1 1 1 0 1 1 0
     = (atoms_at (2, 1, 0) (0, 0, 0), Inl SyntaxError)"
    using a rotate_orth_selector [of 1 1 0 quarter_turn_z "atoms_at (2, 1, 0) (0, 0, 0)" 0 1 1 1 0]
    by blast
  have r: "snd (rotate_orth quarter_turn_z (atoms_at (2, 1, 0) (0, 0, 0)) 0 1 1 1 0 0 0 1) = Inr 0"
    using b rotate_orth_selector [of 0 0 1 quarter_turn_z "atoms_at (2, 1, 0) (0, 0, 0)" 0 1 1 1 0]
    by simp
  have "position (fst (rotate_orth quarter_turn_z (atoms_at (2, 1, 0) (0, 0, 0)) 0 1 1 1 0 0 0 1) 0)
     = Item_move (quarter_turn_z (Item_move (position (atoms_at (2, 1, 0) (0, 0, 0) 0))
          (- 1) (- 1) (- 0)) 1 0 0 1) 1 1 0"
    using b rotate_orth_selector [of 0 0 1 quarter_turn_z "atoms_at (2, 1, 0) (0, 0, 0)" 0 1 1 1 0]
    by blast
  then have p: "position (fst (rotate_orth quarter_turn_z (atoms_at (2, 1, 0) (0, 0, 0)) 0 1 1 1 0 0 0 1) 0)
     = (1, 2, 0)"
    by (simp add: position_atoms_at Item_move_def vadd_def quarter_turn_z_def)
  show ?thesis
    using a b e r p by blast
qed

section \<open>Properties of the random displacement\<close>




section \<open>Properties of the molecular variant\<close>

text \<open>
  C10.  Whatever \<open>typeId\<close> is given to \<open>molecularAtom\<close>, the attribute \<^verbatim>\<open>type\<close>
  of the new atom is the builtin class; two type ids give the same atom, so the
  type id cannot be read back; and the dictionary of \<open>toDict\<close> has the builtin
  class under \<^verbatim>\<open>'type'\<close>.
\<close>

theorem molecularAtom_type:
  "attrs (molecularAtom self atomId molId typeId x y z) ''type'' = Some PyBuiltinType
   \<and> molecularAtom self atomId molId typeId x y z = molecularAtom self atomId molId typeId' x y z
   \<and> (\<exists>d. toDict (molecularAtom self atomId molId typeId x y z) = Inr d
          \<and> d ''type'' = Some PyBuiltinType)"
  by (simp add: molecularAtom_def Let_def Atom_init_def Item_init_def toDict_def attr_get_def)

text \<open>The variant \<open>fullAtom\<close> keeps the type it is given.\<close>

lemma fullAtom_type:
  "attrs (fullAtom self atomId molId type q x y z) ''type'' = Some type"
  by (simp add: fullAtom_def Let_def Atom_init_def Item_init_def)

section \<open>Properties of replication\<close>

lemma duplicate_inner_spec:
  assumes "j < nxt"
  shows "\<exists>h'. duplicate_inner (h, nxt) j x y z is temp
              = ((h', nxt + length is), temp @ [nxt..<nxt + length is])
          \<and> (\<forall>a. a < nxt \<longrightarrow> h' a = h a)
          \<and> (\<forall>k < length is. h' (nxt + k) = shifted (h j) (is ! k) x y z)"
  using assms
proof (induction "is" arbitrary: h nxt temp)
  case Nil
  then show ?case by simp
next
  case (Cons i "is")
  let ?h2 = "move (h(nxt := (h j)\<lparr>label := label (h j)\<rparr>)) nxt (real i * x) (real i * y) (real i * z)"
  have step: "duplicate_inner (h, nxt) j x y z (i # is) temp
                = duplicate_inner (?h2, Suc nxt) j x y z is (temp @ [nxt])"
    by (simp add: get_replica_def Let_def)
  have h2_new: "?h2 nxt = shifted (h j) i x y z"
    by (simp add: move_def Item_move_def shifted_def Let_def)
  have h2_old: "\<And>a. a \<noteq> nxt \<Longrightarrow> ?h2 a = h a"
    by (simp add: move_def Let_def)
  from Cons.prems have j': "j < Suc nxt" by simp
  from Cons.IH [OF j', of ?h2 "temp @ [nxt]"] obtain h' where
    r: "duplicate_inner (?h2, Suc nxt) j x y z is (temp @ [nxt])
          = ((h', Suc nxt + length is), (temp @ [nxt]) @ [Suc nxt..<Suc nxt + length is])"
    and old: "\<forall>a. a < Suc nxt \<longrightarrow> h' a = ?h2 a"
    and new: "\<forall>k < length is. h' (Suc nxt + k) = shifted (?h2 j) (is ! k) x y z"
    by blast
  have l: "(temp @ [nxt]) @ [Suc nxt..<Suc nxt + length is] = temp @ [nxt..<nxt + length (i # is)]"
  proof -
    have "nxt < nxt + length (i # is)" by simp
    from upt_conv_Cons [OF this]
    have "[nxt..<nxt + length (i # is)] = nxt # [Suc nxt..<Suc nxt + length is]" by simp
    then show ?thesis by simp
  qed
  have a1: "\<forall>a. a < nxt \<longrightarrow> h' a = h a"
    using old h2_old by simp
  have a2: "\<forall>k < length (i # is). h' (nxt + k) = shifted (h j) ((i # is) ! k) x y z"
  proof (intro allI impI)
    fix k assume k: "k < length (i # is)"
    show "h' (nxt + k) = shifted (h j) ((i # is) ! k) x y z"
    proof (cases k)
      case 0
      then show ?thesis using old h2_new by simp
    next
      case (Suc k')
      with k have "k' < length is" by simp
      with new have "h' (Suc nxt + k') = shifted (?h2 j) (is ! k') x y z" by blast
      moreover have "?h2 j = h j" using Cons.prems h2_old [of j] by simp
      ultimately show ?thesis using Suc by simp
    qed
  qed
  show ?case
    using step r l a1 a2 by (intro exI [of _ h']) simp
qed

lemma range_from_1:
  "length [1..<Suc n] = n" "\<And>k. k < n \<Longrightarrow> [1..<Suc n] ! k = Suc k"
  by (simp_all del: upt_Suc)

lemma duplicate_outer_spec:
  assumes "\<forall>j\<in>set js. j < nxt"
  shows "\<exists>h'. duplicate_outer (h, nxt) n x y z js temp
              = ((h', nxt + length js * n), temp @ [nxt..<nxt + length js * n])
          \<and> (\<forall>a. a < nxt \<longrightarrow> h' a = h a)
          \<and> (\<forall>k < length js * n.
                h' (nxt + k) = shifted (h (js ! (k div n))) (Suc (k mod n)) x y z)"
  using assms
proof (induction js arbitrary: h nxt temp)
  case Nil
  then show ?case by simp
next
  case (Cons j js)
  from Cons.prems have j: "j < nxt" and js: "\<forall>j\<in>set js. j < nxt + n" by auto
  from duplicate_inner_spec [OF j, of h x y z "[1..<Suc n]" temp] obtain h1 where
    i1: "duplicate_inner (h, nxt) j x y z [1..<Suc n] temp = ((h1, nxt + n), temp @ [nxt..<nxt + n])"
    and old1: "\<forall>a. a < nxt \<longrightarrow> h1 a = h a"
    and new1: "\<forall>k < n. h1 (nxt + k) = shifted (h j) (Suc k) x y z"
    unfolding range_from_1 (1) using range_from_1 (2) [of _ n] by (auto simp del: upt_Suc)
  from Cons.IH [OF js, of h1 "temp @ [nxt..<nxt + n]"] obtain h' where
    r: "duplicate_outer (h1, nxt + n) n x y z js (temp @ [nxt..<nxt + n])
          = ((h', nxt + n + length js * n),
             (temp @ [nxt..<nxt + n]) @ [nxt + n..<nxt + n + length js * n])"
    and old: "\<forall>a. a < nxt + n \<longrightarrow> h' a = h1 a"
    and new: "\<forall>k < length js * n.
                h' (nxt + n + k) = shifted (h1 (js ! (k div n))) (Suc (k mod n)) x y z"
    by blast
  have l: "(temp @ [nxt..<nxt + n]) @ [nxt + n..<nxt + n + length js * n]
             = temp @ [nxt..<nxt + length (j # js) * n]"
    using upt_add_eq_append [of nxt "nxt + n" "length js * n"] by (simp add: add.assoc)
  have a1: "\<forall>a. a < nxt \<longrightarrow> h' a = h a"
    using old old1 by simp
  have a2: "\<forall>k < length (j # js) * n.
              h' (nxt + k) = shifted (h ((j # js) ! (k div n))) (Suc (k mod n)) x y z"
  proof (intro allI impI)
    fix k assume k: "k < length (j # js) * n"
    then have n0: "0 < n" by (cases n) simp_all
    show "h' (nxt + k) = shifted (h ((j # js) ! (k div n))) (Suc (k mod n)) x y z"
    proof (cases "k < n")
      case True
      then have "h' (nxt + k) = h1 (nxt + k)" using old by simp
      then show ?thesis using True new1 by simp
    next
      case False
      define k' where "k' = k - n"
      have kk: "k = n + k'" using False by (simp add: k'_def)
      have k': "k' < length js * n" using k kk by simp
      have dm: "k div n = Suc (k' div n)" "k mod n = k' mod n"
        using n0 kk by simp_all
      have q: "k' div n < length js"
        using k' n0 by (simp add: less_mult_imp_div_less)
      then have "js ! (k' div n) \<in> set js" by simp
      then have "js ! (k' div n) < nxt" using Cons.prems by simp
      then have src: "h1 (js ! (k' div n)) = h (js ! (k' div n))" using old1 by simp
      from new k' have "h' (nxt + n + k') = shifted (h1 (js ! (k' div n))) (Suc (k' mod n)) x y z"
        by blast
      then show ?thesis using src dm kk by (simp add: add.assoc)
    qed
  qed
  have step: "duplicate_outer (h, nxt) n x y z (j # js) temp
                = duplicate_outer (h1, nxt + n) n x y z js (temp @ [nxt..<nxt + n])"
    using i1 by (simp del: upt_Suc)
  show ?case
    using step r l a1 a2 by (intro exI [of _ h']) (simp add: add.commute add.left_commute)
qed


text \<open>
  C3.  Let every object of the replica list of \<open>self\<close>, and \<open>self\<close>, be a live
  object, and let the list have length \<open>L\<close>.  Then \<open>duplicate\<close> returns \<open>self\<close>
  after creating \<open>L * n\<close> objects; the replica list is the old one followed by
  the new objects in the order of their creation, and has length \<open>L * (n + 1)\<close>;
  the copy number \<open>i\<close> (from \<open>1\<close> to \<open>n\<close>) of the replica at index \<open>q\<close> stands at
  index \<open>L + q * n + (i - 1)\<close>, at the position the replica had before the call
  plus \<open>i\<close> times \<open>(x, y, z)\<close>; the old replicas stay where they were.
\<close>

theorem duplicate_replicas:
  assumes self: "self < nxt" and reps: "\<forall>j\<in>set (replicas (h self)). j < nxt"
  shows "\<exists>h'. duplicate (h, nxt) self n x y z
                = ((h', nxt + length (replicas (h self)) * n), self)
          \<and> replicas (h' self)
              = replicas (h self) @ [nxt..<nxt + length (replicas (h self)) * n]
          \<and> length (replicas (h' self)) = length (replicas (h self)) * (n + 1)
          \<and> (\<forall>q i. q < length (replicas (h self)) \<and> 1 \<le> i \<and> i \<le> n \<longrightarrow>
                position (h' (replicas (h' self) ! (length (replicas (h self)) + q * n + (i - 1))))
                  = vadd (position (h (replicas (h self) ! q)))
                      (real i * x, real i * y, real i * z))
          \<and> (\<forall>j\<in>set (replicas (h self)). position (h' j) = position (h j))"
proof -
  let ?js = "replicas (h self)"
  let ?L = "length ?js"
  from duplicate_outer_spec [OF reps, of h n x y z "[]"] obtain h1 where
    r: "duplicate_outer (h, nxt) n x y z ?js [] = ((h1, nxt + ?L * n), [nxt..<nxt + ?L * n])"
    and old: "\<forall>a. a < nxt \<longrightarrow> h1 a = h a"
    and new: "\<forall>k < ?L * n. h1 (nxt + k) = shifted (h (?js ! (k div n))) (Suc (k mod n)) x y z"
    by auto
  define h' where "h' = h1(self := (h1 self)\<lparr>replicas := replicas (h1 self) @ [nxt..<nxt + ?L * n]\<rparr>)"
  have h1self: "h1 self = h self" using old self by simp
  have d: "duplicate (h, nxt) self n x y z = ((h', nxt + ?L * n), self)"
    using r by (simp add: duplicate_def h'_def)
  have rl: "replicas (h' self) = ?js @ [nxt..<nxt + ?L * n]"
    by (simp add: h'_def h1self)
  have len: "length (replicas (h' self)) = ?L * (n + 1)"
    by (simp add: rl)
  have pos: "\<And>a. position (h' a) = position (h1 a)"
    by (simp add: h'_def)
  have srcs: "\<forall>j\<in>set ?js. position (h' j) = position (h j)"
    using reps old pos by simp
  have news: "\<forall>q i. q < ?L \<and> 1 \<le> i \<and> i \<le> n \<longrightarrow>
                position (h' (replicas (h' self) ! (?L + q * n + (i - 1))))
                  = vadd (position (h (?js ! q))) (real i * x, real i * y, real i * z)"
  proof (intro allI impI)
    fix q i assume a: "q < ?L \<and> 1 \<le> i \<and> i \<le> n"
    define k where "k = q * n + (i - 1)"
    have i1: "i - 1 < n" using a by arith
    have "q * n + (i - 1) < q * n + n" using i1 by simp
    also have "\<dots> = Suc q * n" by simp
    also have "\<dots> \<le> ?L * n" using a by (intro mult_le_mono1) simp
    finally have k: "k < ?L * n" by (simp add: k_def)
    have dm: "k div n = q" "k mod n = i - 1"
      using i1 by (simp_all add: k_def)
    have "replicas (h' self) ! (?L + k) = nxt + k"
      using k by (simp add: rl nth_append)
    moreover have "position (h' (nxt + k)) = position (shifted (h (?js ! q)) i x y z)"
      using new k dm a by (simp add: pos)
    ultimately show "position (h' (replicas (h' self) ! (?L + q * n + (i - 1))))
                  = vadd (position (h (?js ! q))) (real i * x, real i * y, real i * z)"
      by (simp add: k_def shifted_def add.assoc)
  qed
  show ?thesis
    using d rl len news srcs by blast
qed

theorem duplicate_replicas_witness:
  "(0::nat) < 2 \<and> replicas (atoms_at (1, 2, 3) (0, 0, 0) 0) = [0] \<and>
   (\<exists>h'. duplicate (atoms_at (1, 2, 3) (0, 0, 0), 2) 0 2 1 0 0 = ((h', 4), 0)
        \<and> replicas (h' 0) = [0, 2, 3]
        \<and> position (h' 2) = (2, 2, 3) \<and> position (h' 3) = (3, 2, 3)
        \<and> position (h' 0) = (1, 2, 3))"
proof -
  let ?h = "atoms_at (1, 2, 3) (0, 0, 0)"
  have rs: "replicas (?h 0) = [0]"
    by (simp add: atoms_at_def molecularAtom_def Atom_init_def Item_init_def Let_def)
  have w: "\<forall>j\<in>set (replicas (?h 0)). j < 2"
    by (simp add: rs)
  from duplicate_replicas [of 0 2 ?h 2 1 0 0, OF _ w] obtain h' where
    d: "duplicate (?h, 2) 0 2 1 0 0 = ((h', 2 + length (replicas (?h 0)) * 2), 0)"
    and rl: "replicas (h' 0) = replicas (?h 0) @ [2..<2 + length (replicas (?h 0)) * 2]"
    and news: "\<forall>q i. q < length (replicas (?h 0)) \<and> 1 \<le> i \<and> i \<le> 2 \<longrightarrow>
                position (h' (replicas (h' 0) ! (length (replicas (?h 0)) + q * 2 + (i - 1))))
                  = vadd (position (?h (replicas (?h 0) ! q)))
                      (real i * 1, real i * 0, real i * 0)"
    and srcs: "\<forall>j\<in>set (replicas (?h 0)). position (h' j) = position (?h j)"
    by auto
  have rl': "replicas (h' 0) = [0, 2, 3]"
    using rl by (simp add: rs upt_rec)
  from news [rule_format, of 0 1] have p2: "position (h' 2) = (2, 2, 3)"
    by (simp add: rs rl' position_atoms_at vadd_def)
  from news [rule_format, of 0 2] have p3: "position (h' 3) = (3, 2, 3)"
    by (simp add: rs rl' position_atoms_at vadd_def)
  from srcs have p0: "position (h' 0) = (1, 2, 3)"
    by (simp add: rs position_atoms_at)
  show ?thesis
    using rs d rl' p2 p3 p0 by simp
qed

section \<open>Properties of grouping\<close>

lemma set_first_occurrences: "set (first_occurrences xs) = set xs"
  by (induction xs) auto

lemma distinct_first_occurrences: "distinct (first_occurrences xs)"
  by (induction xs) (auto simp: set_first_occurrences)

lemma getattr_parent_update:
  "getattr class_attr b (a\<lparr>parent := getattr class_attr b a reference d\<rparr>) reference d
     = getattr class_attr b a reference d"
  by (simp add: getattr_def)

lemma keys_dict_append:
  "map fst (dict_append d k v) = (if k \<in> set (map fst d) then map fst d else map fst d @ [k])"
proof (induction d)
  case Nil
  then show ?case by simp
next
  case (Cons e d)
  obtain k' vs where e: "e = (k', vs)" by (cases e)
  show ?case
  proof (cases "k' = k")
    case True
    then show ?thesis by (simp add: e)
  next
    case False
    then show ?thesis using Cons.IH by (auto simp: e)
  qed
qed

lemma dict_get_dict_append:
  "dict_get (dict_append d k v) k' = (if k' = k then dict_get d k @ [v] else dict_get d k')"
  by (induction d) (auto simp: dict_get_def)

lemma keys_foldl_dict_append:
  "map fst (foldl (\<lambda>d a. dict_append d (f a) a) d as)
     = map fst d @ filter (\<lambda>k. k \<notin> set (map fst d)) (first_occurrences (map f as))"
proof (induction as arbitrary: d)
  case Nil
  then show ?case by simp
next
  case (Cons a as)
  show ?case
  proof (cases "f a \<in> set (map fst d)")
    case True
    have "filter (\<lambda>k. k \<notin> set (map fst d)) (filter (\<lambda>y. y \<noteq> f a) (first_occurrences (map f as)))
            = filter (\<lambda>k. k \<notin> set (map fst d)) (first_occurrences (map f as))"
      using True by (auto intro: filter_cong)
    with True show ?thesis
      by (simp add: Cons.IH keys_dict_append)
  next
    case False
    have "filter (\<lambda>k. k \<notin> set (map fst d) \<and> k \<noteq> f a) (first_occurrences (map f as))
            = filter (\<lambda>k. k \<notin> set (map fst d)) (filter (\<lambda>y. y \<noteq> f a) (first_occurrences (map f as)))"
      by (auto intro: filter_cong)
    with False show ?thesis
      by (simp add: Cons.IH keys_dict_append)
  qed
qed

lemma dict_get_foldl_dict_append:
  "dict_get (foldl (\<lambda>d a. dict_append d (f a) a) d as) k
     = dict_get d k @ filter (\<lambda>a. f a = k) as"
  by (induction as arbitrary: d) (auto simp: dict_get_dict_append)

lemma dict_get_entry:
  "distinct (map fst d) \<Longrightarrow> (k, vs) \<in> set d \<Longrightarrow> dict_get d k = vs"
  by (simp add: dict_get_def)

lemma group_key_parent_update:
  "group_key class_attr (h(a := (h a)\<lparr>parent := group_key class_attr h reference a\<rparr>)) reference
     = group_key class_attr h reference"
  by (rule ext) (simp add: group_key_def getattr_parent_update)

lemma group_atoms_step:
  "group_atoms class_attr reference h g (a # as) =
     (if hashable (group_key class_attr h reference a)
      then group_atoms class_attr reference
             (h(a := (h a)\<lparr>parent := group_key class_attr h reference a\<rparr>))
             (dict_append g (group_key class_attr h reference a) a) as
      else (h(a := (h a)\<lparr>parent := group_key class_attr h reference a\<rparr>),
            Inl (TypeError (unhashable_type (group_key class_attr h reference a)))))"
  by (simp add: Let_def group_key_def)

lemma group_atoms_spec:
  assumes "\<forall>a\<in>set as. hashable (group_key class_attr h reference a)"
  shows "group_atoms class_attr reference h g as
     = ((\<lambda>b. if b \<in> set as then (h b)\<lparr>parent := group_key class_attr h reference b\<rparr> else h b),
        Inr (foldl (\<lambda>d a. dict_append d (group_key class_attr h reference a) a) g as))"
  using assms
proof (induction as arbitrary: h g)
  case Nil
  then show ?case by simp
next
  case (Cons a as)
  let ?k = "group_key class_attr h reference"
  let ?h1 = "h(a := (h a)\<lparr>parent := ?k a\<rparr>)"
  have key: "group_key class_attr ?h1 reference = ?k"
    by (rule group_key_parent_update)
  from Cons.prems have ha: "hashable (?k a)"
    and rest: "\<forall>b\<in>set as. hashable (group_key class_attr ?h1 reference b)"
    by (simp_all add: key)
  have "group_atoms class_attr reference h g (a # as)
          = group_atoms class_attr reference ?h1 (dict_append g (?k a) a) as"
    using ha by (simp only: group_atoms_step if_True)
  also have "\<dots> = ((\<lambda>b. if b \<in> set as then (?h1 b)\<lparr>parent := ?k b\<rparr> else ?h1 b),
        Inr (foldl (\<lambda>d a. dict_append d (?k a) a) (dict_append g (?k a) a) as))"
    using Cons.IH [OF rest] by (simp only: key)
  also have "(\<lambda>b. if b \<in> set as then (?h1 b)\<lparr>parent := ?k b\<rparr> else ?h1 b)
       = (\<lambda>b. if b \<in> set (a # as) then (h b)\<lparr>parent := ?k b\<rparr> else h b)"
    by (rule ext) simp
  finally show ?case by simp
qed

lemma group_atoms_unhashable:
  assumes "\<forall>b\<in>set pre. hashable (group_key class_attr h reference b)"
    and "\<not> hashable (group_key class_attr h reference a)"
  shows "snd (group_atoms class_attr reference h g (pre @ a # rest))
           = Inl (TypeError (unhashable_type (group_key class_attr h reference a)))"
  using assms
proof (induction pre arbitrary: h g)
  case Nil
  then show ?case by (simp only: append_Nil group_atoms_step if_False snd_conv)
next
  case (Cons b pre)
  let ?k = "group_key class_attr h reference"
  let ?h1 = "h(b := (h b)\<lparr>parent := ?k b\<rparr>)"
  have key: "group_key class_attr ?h1 reference = ?k"
    by (rule group_key_parent_update)
  from Cons.prems have hb: "hashable (?k b)"
    and p: "\<forall>c\<in>set pre. hashable (group_key class_attr ?h1 reference c)"
    and a: "\<not> hashable (group_key class_attr ?h1 reference a)"
    by (simp_all add: key)
  have "group_atoms class_attr reference h g ((b # pre) @ a # rest)
          = group_atoms class_attr reference ?h1 (dict_append g (?k b) b) (pre @ a # rest)"
    using hb by (simp only: append_Cons group_atoms_step if_True)
  then show ?case
    using Cons.IH [OF p a] by (simp only: key)
qed

lemma make_molecule_fields:
  "mol_name (make_molecule filename (k, vs)) = k"
  "mol_parent (make_molecule filename (k, vs)) = PyStr filename"
  "mol_items (make_molecule filename (k, vs)) = vs"
  by (simp_all add: make_molecule_def Molecule_def add_items_def Let_def)

lemma mol_name_make_molecule: "mol_name \<circ> make_molecule filename = fst"
  by (rule ext) (simp add: make_molecule_def Molecule_def add_items_def Let_def split: prod.split)

lemma group_by_hashable:
  assumes hk: "\<forall>a\<in>set atoms. hashable (group_key class_attr h reference a)"
  shows "\<exists>mols. snd (group_by class_attr h filename atoms reference) = Inr mols
    \<and> map mol_name mols = first_occurrences (map (group_key class_attr h reference) atoms)
    \<and> distinct (map mol_name mols)
    \<and> set (map mol_name mols) = group_key class_attr h reference ` set atoms
    \<and> (\<forall>m\<in>set mols. mol_parent m = PyStr filename
          \<and> mol_items m = filter (\<lambda>a. group_key class_attr h reference a = mol_name m) atoms)
    \<and> (\<forall>a. fst (group_by class_attr h filename atoms reference) a
          = (if a \<in> set atoms then (h a)\<lparr>parent := group_key class_attr h reference a\<rparr>
             else h a))"
proof -
  let ?key = "group_key class_attr h reference"
  let ?g = "foldl (\<lambda>d a. dict_append d (?key a) a) [] atoms"
  let ?h' = "\<lambda>b. if b \<in> set atoms then (h b)\<lparr>parent := ?key b\<rparr> else h b"
  let ?mols = "map (make_molecule filename) ?g"
  have gb: "group_by class_attr h filename atoms reference = (?h', Inr ?mols)"
    by (simp add: group_by_def group_atoms_spec [OF hk])
  have keys: "map fst ?g = first_occurrences (map ?key atoms)"
    using keys_foldl_dict_append [of ?key "[]" atoms] by simp
  have names: "map mol_name ?mols = first_occurrences (map ?key atoms)"
    using keys by (simp add: mol_name_make_molecule)
  have dist: "distinct (map fst ?g)"
    by (simp add: keys distinct_first_occurrences)
  have items: "\<forall>m\<in>set ?mols.
          mol_parent m = PyStr filename
          \<and> mol_items m = filter (\<lambda>a. ?key a = mol_name m) atoms"
  proof
    fix m assume "m \<in> set ?mols"
    then obtain k vs where e: "(k, vs) \<in> set ?g" and m: "m = make_molecule filename (k, vs)"
      by auto
    have "vs = dict_get ?g k"
      using dict_get_entry [OF dist e] by simp
    also have "\<dots> = filter (\<lambda>a. ?key a = k) atoms"
      using dict_get_foldl_dict_append [of ?key "[]" atoms k] by (simp add: dict_get_def)
    finally show "mol_parent m = PyStr filename
          \<and> mol_items m = filter (\<lambda>a. ?key a = mol_name m) atoms"
      by (simp add: m make_molecule_fields)
  qed
  have d2: "distinct (map mol_name ?mols)"
    by (simp only: names distinct_first_occurrences)
  have s2: "set (map mol_name ?mols) = ?key ` set atoms"
    by (simp only: names set_first_occurrences set_map)
  have st: "\<forall>a. fst (group_by class_attr h filename atoms reference) a = ?h' a"
    by (simp add: gb)
  have sn: "snd (group_by class_attr h filename atoms reference) = Inr ?mols"
    by (simp add: gb)
  show ?thesis
    using sn names d2 s2 items st by blast
qed

lemma group_key_table:
  "(\<lambda>a.
         case map_of
                [(''uuid'', Some (PyNum (real a))),
                 (''id'', attrs (h a) ''_id''),
                 (''style'', Some (PyStr (style (h a)))),
                 (''mass'', attrs (h a) ''_mass''),
                 (''neighbors'', Some (PyList (neighbors (h a)))),
                 (''parent'', Some (parent (h a))),
                 (''label'', Some (label (h a))),
                 (''itemType'', Some (PyStr (itemType (h a)))),
                 (''position'', Some (PyArray (position (h a)))),
                 (''x'', Some (PyNum (fst (position (h a))))),
                 (''_x'', Some (PyNum (fst (position (h a))))),
                 (''y'', Some (PyNum (fst (snd (position (h a)))))),
                 (''_y'', Some (PyNum (fst (snd (position (h a)))))),
                 (''z'', Some (PyNum (snd (snd (position (h a)))))),
                 (''_z'', Some (PyNum (snd (snd (position (h a)))))),
                 (''_style'', Some (PyStr (style (h a)))),
                 (''_neighbors'', Some (PyList (neighbors (h a)))),
                 (''_duplicate'', Some (PyList (replicas (h a))))]
                reference of
           Some (Some v) \<Rightarrow> v
         | Some None \<Rightarrow> PyStr ''UNDEFINED''
         | None \<Rightarrow>
             (case attrs (h a) reference of
                Some v \<Rightarrow> v
              | None \<Rightarrow>
                  if reference \<in> set Atom_methods then PyMethod a reference
                  else (case class_attr a reference of
                          Some v \<Rightarrow> v
                        | None \<Rightarrow> PyStr ''UNDEFINED'')))
     = group_key class_attr h reference"
  by (rule ext) (simp add: group_key_def getattr_def split: option.split)

text \<open>
  C5, as amended.  Let the key of an atom be the value of the reference
  attribute on it in the store before the call, or \<^verbatim>\<open>'UNDEFINED'\<close> when the atom
  has no such attribute: the table below gives that value for the names that
  \<^verbatim>\<open>atom.py\<close> and the base class define, and any other name is looked up among
  the attributes assigned to the instance, then among the methods of \<^verbatim>\<open>Atom\<close>,
  then on the classes.  If the key of every listed atom is hashable, \<open>group_by\<close>
  raises nothing and returns one aggregate for each distinct key, in the order
  in which the keys first occur in the list of atoms; each aggregate has the
  collection name as its parent and holds the atoms of its key, in the order
  of the list; and in the store after the call every atom of the list has its
  key as parent, everything else being as before.
\<close>

theorem group_by_partition:
  "let key = (\<lambda>a.
         case map_of
                [(''uuid'', Some (PyNum (real a))),
                 (''id'', attrs (h a) ''_id''),
                 (''style'', Some (PyStr (style (h a)))),
                 (''mass'', attrs (h a) ''_mass''),
                 (''neighbors'', Some (PyList (neighbors (h a)))),
                 (''parent'', Some (parent (h a))),
                 (''label'', Some (label (h a))),
                 (''itemType'', Some (PyStr (itemType (h a)))),
                 (''position'', Some (PyArray (position (h a)))),
                 (''x'', Some (PyNum (fst (position (h a))))),
                 (''_x'', Some (PyNum (fst (position (h a))))),
                 (''y'', Some (PyNum (fst (snd (position (h a)))))),
                 (''_y'', Some (PyNum (fst (snd (position (h a)))))),
                 (''z'', Some (PyNum (snd (snd (position (h a)))))),
                 (''_z'', Some (PyNum (snd (snd (position (h a)))))),
                 (''_style'', Some (PyStr (style (h a)))),
                 (''_neighbors'', Some (PyList (neighbors (h a)))),
                 (''_duplicate'', Some (PyList (replicas (h a))))]
                reference of
           Some (Some v) \<Rightarrow> v
         | Some None \<Rightarrow> PyStr ''UNDEFINED''
         | None \<Rightarrow>
             (case attrs (h a) reference of
                Some v \<Rightarrow> v
              | None \<Rightarrow>
                  if reference \<in> set Atom_methods then PyMethod a reference
                  else (case class_attr a reference of
                          Some v \<Rightarrow> v
                        | None \<Rightarrow> PyStr ''UNDEFINED'')));
       res = group_by class_attr h filename atoms reference
   in (\<forall>a\<in>set atoms. hashable (key a)) \<longrightarrow>
      (\<exists>mols. snd res = Inr mols
        \<and> map mol_name mols = first_occurrences (map key atoms)
        \<and> distinct (map mol_name mols)
        \<and> set (map mol_name mols) = key ` set atoms
        \<and> (\<forall>m\<in>set mols. mol_parent m = PyStr filename
              \<and> mol_items m = filter (\<lambda>a. key a = mol_name m) atoms)
        \<and> (\<forall>a. fst res a = (if a \<in> set atoms then (h a)\<lparr>parent := key a\<rparr> else h a)))"
  unfolding Let_def group_key_table
  using group_by_hashable [of atoms class_attr h reference filename] by blast

lemma group_key_grouping_store:
  "group_key no_class_attr grouping_store ''ref'' i =
     (if i = 2 then PyStr ''m2'' else if i = 3 then PyStr ''UNDEFINED'' else PyStr ''m1'')"
  by (simp add: group_key_def grouping_store_def getattr_def no_class_attr_def Atom_methods_def)

theorem group_by_partition_witness:
  "(\<exists>mols. snd (group_by no_class_attr grouping_store ''file1'' [0, 1, 2, 3] ''ref'') = Inr mols
       \<and> map mol_name mols = [PyStr ''m1'', PyStr ''m2'', PyStr ''UNDEFINED''])
   \<and> snd (group_by no_class_attr grouping_store ''file1'' [0, 1, 2, 3] ''ref'')
       = Inr [\<lparr>mol_name = PyStr ''m1'', mol_parent = PyStr ''file1'', mol_items = [0, 1]\<rparr>,
              \<lparr>mol_name = PyStr ''m2'', mol_parent = PyStr ''file1'', mol_items = [2]\<rparr>,
              \<lparr>mol_name = PyStr ''UNDEFINED'', mol_parent = PyStr ''file1'', mol_items = [3]\<rparr>]
   \<and> parent (fst (group_by no_class_attr grouping_store ''file1'' [0, 1, 2, 3] ''ref'') 2)
       = PyStr ''m2''"
proof -
  have hk: "\<forall>a\<in>set [0, 1, 2, 3]. hashable (group_key no_class_attr grouping_store ''ref'' a)"
    by (simp add: group_key_grouping_store)
  have e: "snd (group_by no_class_attr grouping_store ''file1'' [0, 1, 2, 3] ''ref'')
       = Inr [\<lparr>mol_name = PyStr ''m1'', mol_parent = PyStr ''file1'', mol_items = [0, 1]\<rparr>,
              \<lparr>mol_name = PyStr ''m2'', mol_parent = PyStr ''file1'', mol_items = [2]\<rparr>,
              \<lparr>mol_name = PyStr ''UNDEFINED'', mol_parent = PyStr ''file1'', mol_items = [3]\<rparr>]"
    unfolding group_by_def group_atoms_spec [OF hk]
    by (simp add: group_key_grouping_store make_molecule_def Molecule_def add_items_def Let_def)
  have p: "parent (fst (group_by no_class_attr grouping_store ''file1'' [0, 1, 2, 3] ''ref'') 2)
             = PyStr ''m2''"
    unfolding group_by_def group_atoms_spec [OF hk]
    by (simp add: group_key_grouping_store)
  note T = group_by_partition [where h = grouping_store and reference = "''ref''"
      and class_attr = no_class_attr and filename = "''file1''" and atoms = "[0, 1, 2, 3]",
      unfolded Let_def group_key_table]
  from T hk obtain mols where
    m: "snd (group_by no_class_attr grouping_store ''file1'' [0, 1, 2, 3] ''ref'') = Inr mols"
    and n: "map mol_name mols
              = first_occurrences (map (group_key no_class_attr grouping_store ''ref'') [0, 1, 2, 3])"
    by blast
  have fo: "first_occurrences (map (group_key no_class_attr grouping_store ''ref'') [0, 1, 2, 3])
          = [PyStr ''m1'', PyStr ''m2'', PyStr ''UNDEFINED'']"
    by (simp add: group_key_grouping_store)
  have n': "map mol_name mols = [PyStr ''m1'', PyStr ''m2'', PyStr ''UNDEFINED'']"
    using n fo by (rule trans)
  have t: "\<exists>mols. snd (group_by no_class_attr grouping_store ''file1'' [0, 1, 2, 3] ''ref'') = Inr mols
       \<and> map mol_name mols = [PyStr ''m1'', PyStr ''m2'', PyStr ''UNDEFINED'']"
    by (rule exI [of _ mols]) (rule conjI [OF m n'])
  show ?thesis
    by (rule conjI [OF t conjI [OF e p]])
qed

text \<open>
  The claim as it was stated fails for a reference attribute whose value is a
  list: grouping by \<^verbatim>\<open>neighbors\<close> returns no aggregates.  The first atom gets its
  (empty) list of neighbours as parent, the dictionary refuses the list as a
  key, and the \<open>TypeError\<close> leaves the second atom untouched.
\<close>

theorem group_by_partition_counterexample:
  "snd (group_by no_class_attr (atoms_at (0, 0, 0) (10, 0, 0)) ''file1'' [0, 1] ''neighbors'')
     = Inl (TypeError ''list'')
   \<and> parent (fst (group_by no_class_attr (atoms_at (0, 0, 0) (10, 0, 0)) ''file1'' [0, 1]
        ''neighbors'') 0) = PyList []
   \<and> parent (fst (group_by no_class_attr (atoms_at (0, 0, 0) (10, 0, 0)) ''file1'' [0, 1]
        ''neighbors'') 1) = PyNone"
  by (simp add: group_by_def Let_def getattr_def atoms_at_def molecularAtom_def Atom_init_def
      Item_init_def)

text \<open>
  Grouping by the properties \<^verbatim>\<open>id\<close> and \<^verbatim>\<open>uuid\<close>: one aggregate for each atom
  id, and one for each object.
\<close>

lemma group_by_id_scenario:
  "snd (group_by no_class_attr (atoms_at (0, 0, 0) (10, 0, 0)) ''file1'' [0, 1, 0] ''id'')
     = Inr [\<lparr>mol_name = PyNum 0, mol_parent = PyStr ''file1'', mol_items = [0, 0]\<rparr>,
            \<lparr>mol_name = PyNum 1, mol_parent = PyStr ''file1'', mol_items = [1]\<rparr>]"
  by (simp add: group_by_def Let_def getattr_def atoms_at_def molecularAtom_def Atom_init_def
      Item_init_def make_molecule_def Molecule_def add_items_def)

lemma group_by_uuid_scenario:
  "snd (group_by no_class_attr grouping_store ''file1'' [0, 1] ''uuid'')
     = Inr [\<lparr>mol_name = PyNum 0, mol_parent = PyStr ''file1'', mol_items = [0]\<rparr>,
            \<lparr>mol_name = PyNum 1, mol_parent = PyStr ''file1'', mol_items = [1]\<rparr>]"
  by (simp add: group_by_def Let_def getattr_def grouping_store_def Atom_init_def
      Item_init_def make_molecule_def Molecule_def add_items_def)

text \<open>
  In general the first atom of the list whose key is unhashable ends the call
  with a \<open>TypeError\<close> that names the type of that key.
\<close>

lemma group_by_unhashable:
  assumes "\<forall>b\<in>set pre. hashable (group_key class_attr h reference b)"
    and "\<not> hashable (group_key class_attr h reference a)"
  shows "snd (group_by class_attr h filename (pre @ a # rest) reference)
           = Inl (TypeError (unhashable_type (group_key class_attr h reference a)))"
proof -
  obtain h1 r where g: "group_atoms class_attr reference h [] (pre @ a # rest) = (h1, r)"
    by (cases "group_atoms class_attr reference h [] (pre @ a # rest)")
  with group_atoms_unhashable [OF assms, of "[]" rest]
  have "r = Inl (TypeError (unhashable_type (group_key class_attr h reference a)))"
    by simp
  with g show ?thesis by (simp add: group_by_def)
qed

end
